theory Spec2Isabelle
  imports Main "HOL-Library.Word"
begin

unbundle bit_operations_syntax

section \<open>The process-group frontend (torch/lib/c10d/frontend.cpp)\<close>

text \<open>
  A \<open>std::shared_ptr<ProcessGroup>\<close> is the identity of a process-group object, or
  \<open>nullptr\<close> (\<open>None\<close>). The class \<open>ProcessGroup\<close> is declared outside the sources,
  so its method \<open>getSize\<close> is a parameter of the functions that call it. The members \<open>pg_group_ranks_\<close> and \<open>default_pg_\<close> lose their trailing underscore here.
  A failed \<open>TORCH_CHECK\<close> carries its message; dereferencing \<open>nullptr\<close> is an error of
  its own.
\<close>

type_synonym process_group = nat

datatype c10d_error = TorchCheck string | NullPointer

record DistributedC10d =
  pg_group_ranks :: "process_group option \<rightharpoonup> (64 word \<rightharpoonup> 64 word)"
  default_pg :: "process_group option"

definition call_getSize :: "(process_group \<Rightarrow> int) \<Rightarrow> process_group option \<Rightarrow> c10d_error + int" where
  "call_getSize getSize p = (case p of None \<Rightarrow> Inl NullPointer | Some g \<Rightarrow> Inr (getSize g))"

text \<open>
  \<open>getGroupSize\<close>: the statement \<open>default_pg->getSize();\<close> is evaluated and its value
  dropped; the function then looks the group up in \<open>pg_group_ranks\<close> and returns the
  number of entries of the rank map found there.
\<close>

definition getGroupSize ::
  "(process_group \<Rightarrow> int) \<Rightarrow> DistributedC10d \<Rightarrow> process_group option \<Rightarrow> c10d_error + 64 word" where
  "getGroupSize getSize d grp =
     (case (if grp = default_pg d then call_getSize getSize (default_pg d) else Inr 0) of
        Inl e \<Rightarrow> Inl e
      | Inr discarded \<Rightarrow>
          (case pg_group_ranks d grp of
             None \<Rightarrow> Inl (TorchCheck ''The given group does not exist'')
           | Some ranks \<Rightarrow> Inr (of_nat (card (dom ranks)))))"

section \<open>The graph IR consumed by the static runtime\<close>

text \<open>
  Modelled from the spec: the IR container (\<open>Graph\<close>, \<open>Node\<close>, \<open>Value\<close>, \<open>Use\<close> of
  torch/csrc/jit/ir) is not among the sources. A Value is a symbolic SSA result produced
  by exactly one node, with a unique identity, a type tag and its uses (node, input-slot
  pairs); a Node has a kind tag, an ordered sequence of input Values and an ordered
  sequence of output Values; a Graph is an ordered sequence of nodes, plus the list of
  graph inputs and of graph outputs.

  A \<open>Value*\<close> is the identity of the Value. A node kind is the qualified string of its
  symbol. The graph inputs are the outputs of the graph's parameter node and the graph
  outputs are the inputs of its return node; neither node is among \<open>graph->nodes()\<close>.
\<close>

type_synonym "value" = nat
type_synonym symbol = string

datatype jit_type =
  TensorType | NoneType | TupleType "jit_type list" | ListType jit_type | ModuleType | OtherType string

record node =
  kind :: symbol
  inputs :: "value list"
  outputs :: "value list"

record graph =
  g_inputs :: "value list"
  g_nodes :: "node list"
  g_outputs :: "value list"
  g_type :: "value \<Rightarrow> jit_type"

abbreviation prim_Constant :: symbol where "prim_Constant \<equiv> ''prim::Constant''"
abbreviation prim_GetAttr :: symbol where "prim_GetAttr \<equiv> ''prim::GetAttr''"
abbreviation prim_TupleConstruct :: symbol where "prim_TupleConstruct \<equiv> ''prim::TupleConstruct''"
abbreviation prim_ListConstruct :: symbol where "prim_ListConstruct \<equiv> ''prim::ListConstruct''"
abbreviation prim_ListUnpack :: symbol where "prim_ListUnpack \<equiv> ''prim::ListUnpack''"

definition param_node :: "graph \<Rightarrow> node" where
  "param_node g = \<lparr>kind = ''prim::Param'', inputs = [], outputs = g_inputs g\<rparr>"

text \<open>\<open>Value::node()\<close>: the node that produces the value.\<close>

definition node_of :: "graph \<Rightarrow> value \<Rightarrow> node" where
  "node_of g v = (case find (\<lambda>n. v \<in> set (outputs n)) (g_nodes g) of
                    Some n \<Rightarrow> n | None \<Rightarrow> param_node g)"

text \<open>
  A \<open>Node*\<close> that can be the user of a value: the node at a position of
  \<open>graph->nodes()\<close>, or the return node. \<open>Value::uses()\<close> lists the (user, offset) pairs
  at which the value is an input.
\<close>

datatype user = NodeAt nat | ReturnNode

definition uses_in :: "user \<Rightarrow> value list \<Rightarrow> value \<Rightarrow> (user \<times> nat) list" where
  "uses_in u ins v = map (\<lambda>i. (u, i)) (filter (\<lambda>i. ins ! i = v) [0..<length ins])"

definition uses :: "graph \<Rightarrow> value \<Rightarrow> (user \<times> nat) list" where
  "uses g v =
     concat (map (\<lambda>k. uses_in (NodeAt k) (inputs (g_nodes g ! k)) v) [0..<length (g_nodes g)])
     @ uses_in ReturnNode (g_outputs g) v"

section \<open>Graph preparation and eligibility (static/impl.cpp)\<close>

datatype sr_error =
    UnfrozenGraph \<comment> \<open>\<open>std::runtime_error("Cannot accelerate unfrozen graphs")\<close>\<close>
  | OutputElementNotTensor jit_type \<comment> \<open>"expects output type as List or Tuple of Tensor, but got ..."\<close>
  | OutputNotNoneOrTensor jit_type \<comment> \<open>"expects output type as None or Tensor, but got ..."\<close>
  | IndexOutOfRange \<comment> \<open>\<open>.at(i)\<close> past the end\<close>
  | SelfHasUses \<comment> \<open>\<open>TORCH_CHECK(!graph->inputs().at(0)->hasUses())\<close>\<close>
  | SchemaWithoutSelf \<comment> \<open>the \<open>TORCH_CHECK\<close> of \<open>RemoveSelfFromSchema\<close>\<close>

text \<open>
  The rewriting passes are the IR's, not the runtime's: their effect on a graph is the
  parameter \<open>sem\<close>. The seven fusions of static/passes.cpp are built on the IR's subgraph
  rewriter and are passes in the same sense. Every pass takes the graph by
  \<open>shared_ptr\<close> or reference and rewrites that graph object: the graph objects live in a
  heap, and the world records, in order, which pass ran on which object.
\<close>

datatype pass =
    Inline | ConstantPropagation | Canonicalize | RemoveTensorMutation | EliminateDeadCode
  | ConcatAddMulReplaceNaNClip | CastedBatchOneHotLengths | ConcatBatchMatMulBatchGather
  | ClipRangesGatherRangesLengthsToOffsets | ClipRangesGatherSigridHash
  | ClipRangesGatherRangesSigridHash | ClipRangesGather

type_synonym graph_ptr = nat

record world =
  heap :: "graph_ptr \<Rightarrow> graph"
  applied :: "(pass \<times> graph_ptr) list"

definition run_pass :: "(pass \<Rightarrow> graph \<Rightarrow> graph) \<Rightarrow> pass \<Rightarrow> graph_ptr \<Rightarrow> world \<Rightarrow> world" where
  "run_pass sem p gp w =
     w\<lparr>heap := (heap w)(gp := sem p (heap w gp)), applied := applied w @ [(p, gp)]\<rparr>"

definition PrepareGraphForStaticRuntime ::
  "(pass \<Rightarrow> graph \<Rightarrow> graph) \<Rightarrow> graph_ptr \<Rightarrow> world \<Rightarrow> world" where
  "PrepareGraphForStaticRuntime sem gp w0 =
     (let w1 = run_pass sem Inline gp w0;
          w2 = run_pass sem ConstantPropagation gp w1;
          w3 = run_pass sem Canonicalize gp w2;
          w4 = run_pass sem ConstantPropagation gp w3;
          w5 = run_pass sem RemoveTensorMutation gp w4;
          w6 = run_pass sem ConstantPropagation gp w5;
          w7 = run_pass sem EliminateDeadCode gp w6
      in w7)"

text \<open>\<open>FBCODE_CAFFE2\<close> is the compile-time flag that guards the body.\<close>

definition FuseInferenceOpsForSparseNN ::
  "(pass \<Rightarrow> graph \<Rightarrow> graph) \<Rightarrow> bool \<Rightarrow> graph_ptr \<Rightarrow> world \<Rightarrow> world" where
  "FuseInferenceOpsForSparseNN sem FBCODE_CAFFE2 gp w0 =
     (if FBCODE_CAFFE2 then
        (let w1 = run_pass sem ConcatAddMulReplaceNaNClip gp w0;
             w2 = run_pass sem CastedBatchOneHotLengths gp w1;
             w3 = run_pass sem ConcatBatchMatMulBatchGather gp w2;
             w4 = run_pass sem ClipRangesGatherRangesLengthsToOffsets gp w3;
             w5 = run_pass sem ClipRangesGatherSigridHash gp w4;
             w6 = run_pass sem ClipRangesGatherRangesSigridHash gp w5;
             w7 = run_pass sem ClipRangesGather gp w6
         in w7)
      else w0)"

definition OptimizeGraph ::
  "(pass \<Rightarrow> graph \<Rightarrow> graph) \<Rightarrow> bool \<Rightarrow> graph_ptr \<Rightarrow> world \<Rightarrow> world" where
  "OptimizeGraph sem FBCODE_CAFFE2 gp w0 =
     (let w1 = PrepareGraphForStaticRuntime sem gp w0;
          w2 = FuseInferenceOpsForSparseNN sem FBCODE_CAFFE2 gp w1;
          w3 = run_pass sem ConstantPropagation gp w2
      in w3)"

fun check_frozen :: "node list \<Rightarrow> sr_error + unit" where
  "check_frozen [] = Inr ()"
| "check_frozen (n # ns) = (if kind n = prim_GetAttr then Inl UnfrozenGraph else check_frozen ns)"

fun check_elements :: "graph \<Rightarrow> value list \<Rightarrow> sr_error + unit" where
  "check_elements g [] = Inr ()"
| "check_elements g (input # rest) =
     (if g_type g input = TensorType then check_elements g rest
      else Inl (OutputElementNotTensor (g_type g input)))"

fun check_outputs :: "graph \<Rightarrow> value list \<Rightarrow> sr_error + unit" where
  "check_outputs g [] = Inr ()"
| "check_outputs g (output # rest) =
     (if kind (node_of g output) = prim_TupleConstruct \<or> kind (node_of g output) = prim_ListConstruct
      then (case check_elements g (inputs (node_of g output)) of
              Inl e \<Rightarrow> Inl e
            | Inr u \<Rightarrow> check_outputs g rest)
      else if g_type g output = TensorType \<or> g_type g output = NoneType
           then check_outputs g rest
           else Inl (OutputNotNoneOrTensor (g_type g output)))"

definition CheckGraphEligibility :: "graph \<Rightarrow> sr_error + unit" where
  "CheckGraphEligibility g =
     (case check_frozen (g_nodes g) of
        Inl e \<Rightarrow> Inl e
      | Inr u \<Rightarrow> check_outputs g (g_outputs g))"

definition RemoveSelfFromGraphInput :: "graph \<Rightarrow> sr_error + graph" where
  "RemoveSelfFromGraphInput g =
     (case g_inputs g of
        [] \<Rightarrow> Inl IndexOutOfRange
      | self # rest \<Rightarrow>
          if g_type g self = ModuleType then
            (if uses g self \<noteq> [] then Inl SelfHasUses else Inr (g\<lparr>g_inputs := rest\<rparr>))
          else Inr g)"

text \<open>
  A \<open>FunctionSchema\<close> is kept as the names of its arguments; \<open>InferenceModuleOptions\<close> as
  its three flags.
\<close>

record FunctionSchema =
  arguments :: "string list"

record InferenceModuleOptions =
  optimize_memory :: bool
  enable_out_variant :: bool
  cleanup_activations :: bool

definition RemoveSelfFromSchema :: "FunctionSchema \<Rightarrow> sr_error + FunctionSchema" where
  "RemoveSelfFromSchema s =
     (case arguments s of
        [] \<Rightarrow> Inl SchemaWithoutSelf
      | a # rest \<Rightarrow> if a = ''self'' then Inr (s\<lparr>arguments := rest\<rparr>) else Inl SchemaWithoutSelf)"

record InferenceModule =
  im_graph :: graph_ptr
  im_schema :: "FunctionSchema option"
  im_opts :: InferenceModuleOptions

text \<open>
  \<open>InferenceModule::init\<close> on the member \<open>graph\<close>. An exception leaves the constructor
  without a module; the world it leaves behind is returned beside the error.
\<close>

definition init ::
  "(pass \<Rightarrow> graph \<Rightarrow> graph) \<Rightarrow> bool \<Rightarrow> graph_ptr \<Rightarrow> world \<Rightarrow> world \<times> (sr_error + unit)" where
  "init sem FBCODE_CAFFE2 gp w0 =
     (let w1 = OptimizeGraph sem FBCODE_CAFFE2 gp w0 in
      case CheckGraphEligibility (heap w1 gp) of
        Inl e \<Rightarrow> (w1, Inl e)
      | Inr u \<Rightarrow>
          (case RemoveSelfFromGraphInput (heap w1 gp) of
             Inl e \<Rightarrow> (w1, Inl e)
           | Inr g' \<Rightarrow> (w1\<lparr>heap := (heap w1)(gp := g')\<rparr>, Inr ())))"

text \<open>
  The constructor from a graph: \<open>graph(std::move(g))\<close>, \<open>schema(nullptr)\<close>, then
  \<open>init()\<close>. The member is the caller's pointer.
\<close>

definition InferenceModule_of_graph ::
  "(pass \<Rightarrow> graph \<Rightarrow> graph) \<Rightarrow> bool \<Rightarrow> graph_ptr \<Rightarrow> InferenceModuleOptions \<Rightarrow> world
     \<Rightarrow> world \<times> (sr_error + InferenceModule)" where
  "InferenceModule_of_graph sem FBCODE_CAFFE2 g opts w0 =
     (case init sem FBCODE_CAFFE2 g w0 of
        (w1, Inl e) \<Rightarrow> (w1, Inl e)
      | (w1, Inr u) \<Rightarrow> (w1, Inr \<lparr>im_graph = g, im_schema = None, im_opts = opts\<rparr>))"

text \<open>
  The constructor from a module: \<open>module(m.copy())\<close>, \<open>module.eval()\<close>,
  \<open>module = freeze_module(module)\<close>, then the graph and the schema of the method
  \<open>forward\<close> of that module. The class \<open>Module\<close> and \<open>freeze_module\<close> are outside the
  sources: \<open>frozen_copy\<close> stands for the three calls, returning, in the world they
  leave, where the forward graph of the frozen copy lives and its schema.
\<close>

definition InferenceModule_of_module ::
  "(pass \<Rightarrow> graph \<Rightarrow> graph) \<Rightarrow> bool \<Rightarrow> ('m \<Rightarrow> world \<Rightarrow> world \<times> graph_ptr \<times> FunctionSchema)
     \<Rightarrow> 'm \<Rightarrow> InferenceModuleOptions \<Rightarrow> world \<Rightarrow> world \<times> (sr_error + InferenceModule)" where
  "InferenceModule_of_module sem FBCODE_CAFFE2 frozen_copy m opts w0 =
     (case frozen_copy m w0 of
        (w1, gp, s) \<Rightarrow>
          (case RemoveSelfFromSchema s of
             Inl e \<Rightarrow> (w1, Inl e)
           | Inr s' \<Rightarrow>
               (case init sem FBCODE_CAFFE2 gp w1 of
                  (w2, Inl e) \<Rightarrow> (w2, Inl e)
                | (w2, Inr u) \<Rightarrow> (w2, Inr \<lparr>im_graph = gp, im_schema = Some s', im_opts = opts\<rparr>))))"

text \<open>
  Two example graphs. The first returns what \<open>aten::split\<close> produces, a list of
  tensors. The second has a node whose output nobody uses, and comes with an example of
  what the passes do: dead-code elimination drops the nodes none of whose outputs is used,
  every other pass leaves the graph as it is.
\<close>

definition split_graph :: graph where
  "split_graph =
     \<lparr>g_inputs = [0],
      g_nodes = [\<lparr>kind = prim_Constant, inputs = [], outputs = [1]\<rparr>,
                 \<lparr>kind = prim_Constant, inputs = [], outputs = [2]\<rparr>,
                 \<lparr>kind = ''aten::split'', inputs = [0, 1, 2], outputs = [3]\<rparr>],
      g_outputs = [3],
      g_type = (\<lambda>v. if v = 0 then TensorType else if v = 3 then ListType TensorType
                     else OtherType ''int'')\<rparr>"

definition unfrozen_graph :: graph where
  "unfrozen_graph =
     \<lparr>g_inputs = [0],
      g_nodes = [\<lparr>kind = prim_GetAttr, inputs = [0], outputs = [1]\<rparr>],
      g_outputs = [1],
      g_type = (\<lambda>v. if v = 0 then ModuleType else TensorType)\<rparr>"

definition dead_node_graph :: graph where
  "dead_node_graph =
     \<lparr>g_inputs = [0],
      g_nodes = [\<lparr>kind = ''aten::relu'', inputs = [0], outputs = [1]\<rparr>,
                 \<lparr>kind = ''aten::tanh'', inputs = [0], outputs = [2]\<rparr>],
      g_outputs = [2],
      g_type = (\<lambda>v. TensorType)\<rparr>"

definition drop_unused :: "graph \<Rightarrow> graph" where
  "drop_unused g = g\<lparr>g_nodes := filter (\<lambda>n. \<exists>v\<in>set (outputs n). uses g v \<noteq> []) (g_nodes g)\<rparr>"

definition example_passes :: "pass \<Rightarrow> graph \<Rightarrow> graph" where
  "example_passes p g = (if p = EliminateDeadCode then drop_unused g else g)"

definition example_opts :: InferenceModuleOptions where
  "example_opts = \<lparr>optimize_memory = False, enable_out_variant = True, cleanup_activations = True\<rparr>"

section \<open>The runtime's memory: IValues, storages, processed nodes\<close>

text \<open>
  An \<open>IValue\<close> is a tagged container; a tensor is kept as the identity of the
  \<open>StorageImpl\<close> behind it. A \<open>StorageImpl\<close> has its size in bytes and its data pointer
  (\<open>None\<close> for \<open>nullptr\<close>); \<open>size_t\<close> and addresses are 64-bit words.

  The runtime keeps its IValues in \<open>inputs_\<close>, in \<open>constants_\<close> and in the \<open>outputs_\<close>
  vector of each ProcessedNode, and hands out their addresses (\<open>IValue*\<close>). An address
  is a slot: the i-th input, the i-th constant, or output i of the k-th processed node;
  \<open>None\<close> is \<open>nullptr\<close>. The IValues are a store from slots to values. The constructor of
  ProcessedNode sizes \<open>outputs_\<close> to \<open>node->outputs().size()\<close> and nothing resizes it, so
  \<open>pnode.outputs().size()\<close> is the number of outputs of the node. The header that
  declares ProcessedNode is not among the sources: its accessor \<open>has_out_variant()\<close>,
  which tells whether the node was given an out-variant function, is a field.
\<close>

type_synonym storage_ptr = nat

datatype ivalue =
  IVNone | IVTensor storage_ptr | IVTuple "ivalue list" | IVList "ivalue list" | IVOther nat

record StorageImpl =
  nbytes :: "64 word"
  data :: "64 word option"

datatype slot = InputSlot nat | ConstantSlot nat | OutputSlot nat nat

record ProcessedNode =
  pn_node :: node
  pn_inputs :: "slot list"
  has_out_variant :: bool

text \<open>
  The MemoryPlanner: \<open>managed_storage_\<close> (each group a size and the storages of the
  group), \<open>managed_bytes_\<close>, \<open>buffer_\<close> (the address of the pooled buffer, if any) and
  \<open>unmanaged_values_\<close>. The last is a vector filled from an unordered set: its order
  is unspecified and nothing depends on it, so it is kept as a set.
\<close>

record MemoryPlanner =
  managed_storage :: "(64 word \<times> storage_ptr list) list"
  managed_bytes :: "64 word"
  buffer :: "64 word option"
  unmanaged_values :: "slot option set"

text \<open>
  The StaticRuntime, with the memory it works on: the graph, schema and option of its
  InferenceModule, its processed nodes, the addresses of the graph outputs, its planner,
  the store of IValues and the store of storages. The constructor gives \<open>inputs_\<close> one
  IValue per graph input, so \<open>inputs_.size()\<close> is the number of graph inputs.
  \<open>executed\<close> is not a member: it records, in order, the indices of the processed nodes
  whose \<open>run()\<close> was called.
\<close>

record StaticRuntime =
  rt_graph :: graph
  rt_schema :: "FunctionSchema option"
  rt_cleanup_activations :: bool
  rt_nodes :: "ProcessedNode list"
  rt_outputs :: "slot list"
  rt_planner :: "MemoryPlanner option"
  ivalues :: "slot \<Rightarrow> ivalue"
  storages :: "storage_ptr \<Rightarrow> StorageImpl"
  executed :: "nat list"

datatype rt_error =
    SchemaNotAvailable \<comment> \<open>"Schema is not available. Consider creating the Static Runtime with ..."\<close>
  | NormalizeFailed string \<comment> \<open>whatever \<open>checkAndNormalizeInputs\<close> throws\<close>
  | NodeFailed string \<comment> \<open>whatever an operator throws\<close>
  | InputOutOfRange nat \<comment> \<open>\<open>Input(i)\<close> past the end of \<open>inputs_\<close>\<close>
  | NoOutput \<comment> \<open>\<open>outputs_[0]\<close> of an empty \<open>outputs_\<close>\<close>
  | NotATensor \<comment> \<open>\<open>TORCH_CHECK(ival.isTensor())\<close>\<close>
  | GroupOutOfRange \<comment> \<open>\<open>managed_storage_[i]\<close> past the end\<close>
  | NullPointerWrite \<comment> \<open>\<open>*iv = IValue()\<close> with \<open>iv == nullptr\<close>\<close>
  | DCHECK_LE_failed \<comment> \<open>\<open>DCHECK_LE(offset + tensor_size, managed_bytes_)\<close>\<close>
  | DCHECK_EQ_failed \<comment> \<open>\<open>DCHECK_EQ(offset, managed_bytes_)\<close>\<close>
  | NotCleanedUp slot \<comment> \<open>a \<open>TORCH_CHECK\<close> of \<open>check_for_memory_leak\<close>, with the slot it is about\<close>
  | ArityMismatch \<comment> \<open>\<open>DCHECK_EQ(stack.size(), node_->outputs().size())\<close>\<close>

text \<open>A \<open>for\<close> loop whose body may throw: the first exception ends it.\<close>

fun for_each :: "('a \<Rightarrow> 's \<Rightarrow> 'e + 's) \<Rightarrow> 'a list \<Rightarrow> 's \<Rightarrow> 'e + 's" where
  "for_each body [] s = Inr s"
| "for_each body (x # xs) s = (case body x s of Inl e \<Rightarrow> Inl e | Inr s' \<Rightarrow> for_each body xs s')"

section \<open>MemoryPlanner: construction (static/impl.cpp)\<close>

text \<open>
  The locals of the first half of the constructor: \<open>managed_values\<close>,
  \<open>unmanaged_value_set\<close> and \<open>values_map\<close>. \<open>values_map[v]\<close> of a value without an
  entry is \<open>nullptr\<close>. \<open>isViewOp\<close> is the op registry's, a parameter.
\<close>

record plan_values =
  managed_values :: "value set"
  unmanaged_value_set :: "slot option set"
  values_map :: "value \<Rightarrow> slot option"

definition should_manage :: "(node \<Rightarrow> bool) \<Rightarrow> value set \<Rightarrow> ProcessedNode \<Rightarrow> bool" where
  "should_manage isViewOp graph_input_values pnode =
     (if has_out_variant pnode \<and> isViewOp (pn_node pnode)
      then \<not> (\<exists>i\<in>set (inputs (pn_node pnode)). i \<in> graph_input_values)
      else has_out_variant pnode)"

definition scan_output :: "graph \<Rightarrow> bool \<Rightarrow> nat \<Rightarrow> nat \<times> value \<Rightarrow> plan_values \<Rightarrow> plan_values" where
  "scan_output g manage k = (\<lambda>(i, out) pv.
     if manage then
       (if g_type g out = TensorType
        then pv\<lparr>managed_values := insert out (managed_values pv),
                values_map := (values_map pv)(out := Some (OutputSlot k i))\<rparr>
        else pv)
     else pv\<lparr>unmanaged_value_set := insert (Some (OutputSlot k i)) (unmanaged_value_set pv),
             values_map := (values_map pv)(out := Some (OutputSlot k i))\<rparr>)"

definition scan_pnode ::
  "(node \<Rightarrow> bool) \<Rightarrow> graph \<Rightarrow> value set \<Rightarrow> nat \<times> ProcessedNode \<Rightarrow> plan_values \<Rightarrow> plan_values" where
  "scan_pnode isViewOp g graph_input_values = (\<lambda>(k, pnode) pv.
     fold (scan_output g (should_manage isViewOp graph_input_values pnode) k)
          (enumerate 0 (outputs (pn_node pnode))) pv)"

text \<open>The tensors in an output tuple or list leave \<open>managed_values\<close>.\<close>

definition drop_element :: "value set \<Rightarrow> value \<Rightarrow> plan_values \<Rightarrow> plan_values" where
  "drop_element graph_input_values input pv =
     (let pv1 = pv\<lparr>managed_values := managed_values pv - {input}\<rparr> in
      if input \<notin> graph_input_values
      then pv1\<lparr>unmanaged_value_set := insert (values_map pv1 input) (unmanaged_value_set pv1)\<rparr>
      else pv1)"

definition drop_aggregate :: "graph \<Rightarrow> value set \<Rightarrow> value \<Rightarrow> plan_values \<Rightarrow> plan_values" where
  "drop_aggregate g graph_input_values output pv =
     (let output_node = node_of g output in
      if kind output_node = prim_TupleConstruct \<or> kind output_node = prim_ListConstruct
      then fold (drop_element graph_input_values) (inputs output_node) pv
      else pv)"

definition plan :: "(node \<Rightarrow> bool) \<Rightarrow> StaticRuntime \<Rightarrow> plan_values" where
  "plan isViewOp runtime =
     (let g = rt_graph runtime;
          graph_input_values = set (g_inputs g);
          pv0 = \<lparr>managed_values = {}, unmanaged_value_set = {}, values_map = (\<lambda>v. None)\<rparr>;
          pv1 = fold (scan_pnode isViewOp g graph_input_values) (enumerate 0 (rt_nodes runtime)) pv0;
          pv2 = fold (drop_aggregate g graph_input_values) (g_outputs g) pv1;
          pv3 = fold (\<lambda>output pv. pv\<lparr>managed_values := managed_values pv - {output}\<rparr>) (g_outputs g) pv2;
          pv4 = fold (\<lambda>output pv. pv\<lparr>unmanaged_value_set := unmanaged_value_set pv - {Some output}\<rparr>)
                     (rt_outputs runtime) pv3
      in pv4)"

text \<open>
  The second half: the snapshot of the storages. \<open>managed_storage_impls\<close> is the set of
  storages seen, \<open>shared\<close> maps a value to the index of the group it has to join.
\<close>

record grouping =
  gr_storage :: "(64 word \<times> storage_ptr list) list"
  managed_storage_impls :: "storage_ptr set"
  shared :: "value \<rightharpoonup> nat"

definition group_output ::
  "StaticRuntime \<Rightarrow> value set \<Rightarrow> (value \<rightharpoonup> value list) \<Rightarrow> nat \<Rightarrow> nat \<times> value
     \<Rightarrow> grouping \<Rightarrow> rt_error + grouping" where
  "group_output runtime managed should_share k = (\<lambda>(i, val) gr.
     if val \<in> managed then
       (case ivalues runtime (OutputSlot k i) of
          IVTensor impl \<Rightarrow>
            if impl \<in> managed_storage_impls gr then Inr gr
            else
              (let gr1 = gr\<lparr>managed_storage_impls := insert impl (managed_storage_impls gr)\<rparr> in
               case shared gr1 val of
                 Some idx \<Rightarrow>
                   if idx < length (gr_storage gr1)
                   then Inr (gr1\<lparr>gr_storage := (gr_storage gr1)
                          [idx := (fst (gr_storage gr1 ! idx), snd (gr_storage gr1 ! idx) @ [impl])]\<rparr>)
                   else Inl GroupOutOfRange
               | None \<Rightarrow>
                   (let gr2 = gr1\<lparr>gr_storage := gr_storage gr1 @ [(0, [impl])]\<rparr> in
                    case should_share val of
                      Some vs \<Rightarrow>
                        Inr (gr2\<lparr>shared := fold (\<lambda>v sh. sh(v \<mapsto> length (gr_storage gr2) - 1)) vs (shared gr2)\<rparr>)
                    | None \<Rightarrow> Inr gr2))
        | _ \<Rightarrow> Inl NotATensor)
     else Inr gr)"

definition group_pnode ::
  "StaticRuntime \<Rightarrow> value set \<Rightarrow> (value \<rightharpoonup> value list) \<Rightarrow> nat \<times> ProcessedNode
     \<Rightarrow> grouping \<Rightarrow> rt_error + grouping" where
  "group_pnode runtime managed should_share = (\<lambda>(k, pnode) gr.
     for_each (group_output runtime managed should_share k) (enumerate 0 (outputs (pn_node pnode))) gr)"

definition new_MemoryPlanner ::
  "(node \<Rightarrow> bool) \<Rightarrow> StaticRuntime \<Rightarrow> (value \<rightharpoonup> value list) \<Rightarrow> rt_error + MemoryPlanner" where
  "new_MemoryPlanner isViewOp runtime should_share =
     (let pv = plan isViewOp runtime in
      case for_each (group_pnode runtime (managed_values pv) should_share)
             (enumerate 0 (rt_nodes runtime))
             \<lparr>gr_storage = [], managed_storage_impls = {}, shared = Map.empty\<rparr> of
        Inl e \<Rightarrow> Inl e
      | Inr gr \<Rightarrow>
          Inr \<lparr>managed_storage = gr_storage gr, managed_bytes = 0, buffer = None,
               unmanaged_values = unmanaged_value_set pv\<rparr>)"

section \<open>MemoryPlanner: allocate and deallocate (static/impl.cpp)\<close>

text \<open>
  \<open>c10::gAlignment\<close>, \<open>StorageImpl::reset\<close>, the caching allocator behind
  \<open>allocate_buffer\<close> and the macro \<open>NDEBUG\<close> (which compiles the \<open>DCHECK\<close>s out) are
  outside the sources; so are the operators the nodes run, the op registry's \<open>isViewOp\<close>
  and the schema's \<open>checkAndNormalizeInputs\<close>. They are the fields of one record of
  parameters. Keyword arguments are a list of (name, value) pairs. What the function of
  a processed node computes is \<open>exec\<close>: from the node, the IValues of its inputs, the
  IValues in its output slots and the storages, it answers the new IValues of the output
  slots and the storages, or throws.
\<close>

record externals =
  NDEBUG :: bool
  gAlignment :: "64 word"
  reset :: "StorageImpl \<Rightarrow> StorageImpl"
  allocate_buffer :: "64 word \<Rightarrow> 64 word"
  isViewOp :: "node \<Rightarrow> bool"
  checkAndNormalizeInputs ::
    "FunctionSchema \<Rightarrow> ivalue list \<Rightarrow> (string \<times> ivalue) list \<Rightarrow> string + ivalue list"
  exec ::
    "ProcessedNode \<Rightarrow> ivalue list \<Rightarrow> ivalue list \<Rightarrow> (storage_ptr \<Rightarrow> StorageImpl)
       \<Rightarrow> string + (ivalue list \<times> (storage_ptr \<Rightarrow> StorageImpl))"

definition compute_aligned_tensor_size :: "externals \<Rightarrow> 64 word \<Rightarrow> 64 word" where
  "compute_aligned_tensor_size ext n = (n + gAlignment ext - 1) AND (NOT (gAlignment ext - 1))"

definition deallocate_impl ::
  "externals \<Rightarrow> storage_ptr \<Rightarrow> 64 word \<times> (storage_ptr \<Rightarrow> StorageImpl)
     \<Rightarrow> 64 word \<times> (storage_ptr \<Rightarrow> StorageImpl)" where
  "deallocate_impl ext impl = (\<lambda>(mx, sts).
     (let current_size = compute_aligned_tensor_size ext (nbytes (sts impl));
          sts1 = sts(impl := reset ext (sts impl))
      in (max mx current_size, sts1)))"

text \<open>
  The loop over \<open>managed_storage_\<close> rewrites the size of each group in place; the groups
  already rewritten are the first component of the loop state, \<open>managed_bytes_\<close> is the
  second.
\<close>

definition deallocate_group ::
  "externals \<Rightarrow> 64 word \<times> storage_ptr list
     \<Rightarrow> (64 word \<times> storage_ptr list) list \<times> 64 word \<times> (storage_ptr \<Rightarrow> StorageImpl)
     \<Rightarrow> (64 word \<times> storage_ptr list) list \<times> 64 word \<times> (storage_ptr \<Rightarrow> StorageImpl)" where
  "deallocate_group ext ms = (\<lambda>(rewritten, bytes, sts).
     (case fold (deallocate_impl ext) (snd ms) (0, sts) of
        (mx, sts1) \<Rightarrow> (rewritten @ [(mx, snd ms)], bytes + mx, sts1)))"

definition deallocate ::
  "externals \<Rightarrow> MemoryPlanner \<Rightarrow> StaticRuntime \<Rightarrow> rt_error + (MemoryPlanner \<times> StaticRuntime)" where
  "deallocate ext p rt =
     (case fold (deallocate_group ext) (managed_storage p) ([], 0, storages rt) of
        (groups, bytes, sts) \<Rightarrow>
          if None \<in> unmanaged_values p then Inl NullPointerWrite
          else Inr (p\<lparr>managed_storage := groups, managed_bytes := bytes, buffer := None\<rparr>,
                    rt\<lparr>storages := sts,
                       ivalues := (\<lambda>s. if Some s \<in> unmanaged_values p then IVNone else ivalues rt s)\<rparr>))"

definition allocate_impls ::
  "64 word \<Rightarrow> 64 word \<Rightarrow> storage_ptr list \<Rightarrow> (storage_ptr \<Rightarrow> StorageImpl) \<Rightarrow> (storage_ptr \<Rightarrow> StorageImpl)" where
  "allocate_impls src tensor_size impls sts =
     fold (\<lambda>impl sts. sts(impl := (sts impl)\<lparr>nbytes := tensor_size, data := Some src\<rparr>)) impls sts"

definition allocate_group ::
  "externals \<Rightarrow> 64 word \<Rightarrow> 64 word \<Rightarrow> 64 word \<times> storage_ptr list
     \<Rightarrow> 64 word \<times> (storage_ptr \<Rightarrow> StorageImpl)
     \<Rightarrow> rt_error + (64 word \<times> (storage_ptr \<Rightarrow> StorageImpl))" where
  "allocate_group ext bytes start ms = (\<lambda>(offset, sts).
     (let tensor_size = fst ms in
      if tensor_size = 0 then Inr (offset, sts)
      else if \<not> NDEBUG ext \<and> \<not> offset + tensor_size \<le> bytes then Inl DCHECK_LE_failed
      else Inr (offset + tensor_size, allocate_impls (start + offset) tensor_size (snd ms) sts)))"

definition allocate ::
  "externals \<Rightarrow> MemoryPlanner \<Rightarrow> StaticRuntime \<Rightarrow> rt_error + (MemoryPlanner \<times> StaticRuntime)" where
  "allocate ext p rt =
     (if managed_bytes p = 0 then Inr (p, rt)
      else
        (let start = allocate_buffer ext (managed_bytes p) in
         case for_each (allocate_group ext (managed_bytes p) start) (managed_storage p)
                (0, storages rt) of
           Inl e \<Rightarrow> Inl e
         | Inr (offset, sts) \<Rightarrow>
             if \<not> NDEBUG ext \<and> offset \<noteq> managed_bytes p then Inl DCHECK_EQ_failed
             else Inr (p\<lparr>buffer := Some start\<rparr>, rt\<lparr>storages := sts\<rparr>)))"

text \<open>
  The invariant of the storage grouping: no storage stands twice in the groups, and every
  storage in a group has been recorded as seen.
\<close>

definition groups_distinct :: "grouping \<Rightarrow> bool" where
  "groups_distinct gr \<longleftrightarrow>
     distinct (concat (map snd (gr_storage gr))) \<and>
     set (concat (map snd (gr_storage gr))) \<subseteq> managed_storage_impls gr"

text \<open>
  An example runtime, after its first run. The graph adds its input to itself, reshapes
  the input, multiplies and returns the product, and applies \<open>relu\<close> and a second
  \<open>reshape\<close> to the sum. Reshape is the view op; the tensor of the second reshape shares
  the storage (10) of the sum.
\<close>

definition example_graph :: graph where
  "example_graph =
     \<lparr>g_inputs = [0],
      g_nodes = [\<lparr>kind = ''aten::add'', inputs = [0, 0], outputs = [1]\<rparr>,
                 \<lparr>kind = ''aten::reshape'', inputs = [0], outputs = [2]\<rparr>,
                 \<lparr>kind = ''aten::mul'', inputs = [1, 2], outputs = [3]\<rparr>,
                 \<lparr>kind = ''aten::relu'', inputs = [1], outputs = [4]\<rparr>,
                 \<lparr>kind = ''aten::reshape'', inputs = [1], outputs = [5]\<rparr>],
      g_outputs = [3],
      g_type = (\<lambda>v. TensorType)\<rparr>"

definition example_view :: "node \<Rightarrow> bool" where
  "example_view n \<longleftrightarrow> kind n = ''aten::reshape''"

definition example_runtime :: StaticRuntime where
  "example_runtime =
     \<lparr>rt_graph = example_graph,
      rt_schema = None,
      rt_cleanup_activations = True,
      rt_nodes =
        [\<lparr>pn_node = \<lparr>kind = ''aten::add'', inputs = [0, 0], outputs = [1]\<rparr>,
          pn_inputs = [InputSlot 0, InputSlot 0], has_out_variant = True\<rparr>,
         \<lparr>pn_node = \<lparr>kind = ''aten::reshape'', inputs = [0], outputs = [2]\<rparr>,
          pn_inputs = [InputSlot 0], has_out_variant = True\<rparr>,
         \<lparr>pn_node = \<lparr>kind = ''aten::mul'', inputs = [1, 2], outputs = [3]\<rparr>,
          pn_inputs = [OutputSlot 0 0, OutputSlot 1 0], has_out_variant = True\<rparr>,
         \<lparr>pn_node = \<lparr>kind = ''aten::relu'', inputs = [1], outputs = [4]\<rparr>,
          pn_inputs = [OutputSlot 0 0], has_out_variant = True\<rparr>,
         \<lparr>pn_node = \<lparr>kind = ''aten::reshape'', inputs = [1], outputs = [5]\<rparr>,
          pn_inputs = [OutputSlot 0 0], has_out_variant = True\<rparr>],
      rt_outputs = [OutputSlot 2 0],
      rt_planner = None,
      ivalues = (\<lambda>s. case s of
                   InputSlot i \<Rightarrow> IVTensor 99
                 | ConstantSlot i \<Rightarrow> IVNone
                 | OutputSlot k i \<Rightarrow>
                     if k = 0 then IVTensor 10 else if k = 1 then IVTensor 99
                     else if k = 2 then IVTensor 12 else if k = 3 then IVTensor 13
                     else if k = 4 then IVTensor 10 else IVNone),
      storages = (\<lambda>p. \<lparr>nbytes = (if p = 10 then 100 else if p = 13 then 64 else 8),
                        data = Some (4096 + 256 * of_nat p)\<rparr>),
      executed = []\<rparr>"


definition example_planner :: MemoryPlanner where
  "example_planner =
     \<lparr>managed_storage = [(0, [10]), (0, [13])], managed_bytes = 0, buffer = None,
      unmanaged_values = {Some (OutputSlot 1 0)}\<rparr>"

section \<open>StaticRuntime: run (static/impl.cpp)\<close>

text \<open>
  An exception leaves \<open>run\<close> with the runtime as it is at that point: an error comes
  with that runtime.
\<close>

definition run_allocate ::
  "externals \<Rightarrow> StaticRuntime \<Rightarrow> rt_error \<times> StaticRuntime + StaticRuntime" where
  "run_allocate ext rt =
     (case rt_planner rt of
        None \<Rightarrow> Inr rt
      | Some p \<Rightarrow>
          (case allocate ext p rt of
             Inl e \<Rightarrow> Inl (e, rt)
           | Inr (p1, rt1) \<Rightarrow> Inr (rt1\<lparr>rt_planner := Some p1\<rparr>)))"




text \<open>
  \<open>ProcessedNode::run\<close> of the k-th processed node: whichever of \<open>fn_\<close>, \<open>native_fn_\<close> and
  the operator it calls is \<open>exec\<close>; the results go to the output slots of the node.
\<close>

definition run_node ::
  "externals \<Rightarrow> nat \<times> ProcessedNode \<Rightarrow> StaticRuntime \<Rightarrow> rt_error \<times> StaticRuntime + StaticRuntime" where
  "run_node ext = (\<lambda>(k, pnode) rt.
     (let n = length (outputs (pn_node pnode));
          rt1 = rt\<lparr>executed := executed rt @ [k]\<rparr>
      in case exec ext pnode (map (ivalues rt) (pn_inputs pnode))
                (map (\<lambda>i. ivalues rt (OutputSlot k i)) [0..<n]) (storages rt) of
           Inl msg \<Rightarrow> Inl (NodeFailed msg, rt1)
         | Inr (outs, sts) \<Rightarrow>
             if length outs \<noteq> n then Inl (ArityMismatch, rt1)
             else Inr (rt1\<lparr>ivalues := (\<lambda>s. case s of
                                  OutputSlot k' i \<Rightarrow> if k' = k \<and> i < n then outs ! i else ivalues rt s
                                | _ \<Rightarrow> ivalues rt s),
                            storages := sts\<rparr>)))"

definition cleanup ::
  "externals \<Rightarrow> StaticRuntime \<Rightarrow> rt_error \<times> StaticRuntime + StaticRuntime" where
  "cleanup ext rt =
     (if rt_cleanup_activations rt then
        (case (case rt_planner rt of
                 Some p \<Rightarrow> Inr p
               | None \<Rightarrow> new_MemoryPlanner (isViewOp ext) rt Map.empty) of
           Inl e \<Rightarrow> Inl (e, rt)
         | Inr p \<Rightarrow>
             (case deallocate ext p rt of
                Inl e \<Rightarrow> Inl (e, rt\<lparr>rt_planner := Some p\<rparr>)
              | Inr (p1, rt1) \<Rightarrow>
                  Inr (rt1\<lparr>rt_planner := Some p1,
                           ivalues := (\<lambda>s. case s of
                               InputSlot i \<Rightarrow> if i < length (g_inputs (rt_graph rt1)) then IVNone
                                              else ivalues rt1 s
                             | _ \<Rightarrow> ivalues rt1 s)\<rparr>)))
      else Inr rt)"

definition check_leak_input :: "StaticRuntime \<Rightarrow> nat \<Rightarrow> unit \<Rightarrow> rt_error + unit" where
  "check_leak_input rt i u =
     (if ivalues rt (InputSlot i) = IVNone then Inr () else Inl (NotCleanedUp (InputSlot i)))"

definition check_leak_output :: "StaticRuntime \<Rightarrow> bool \<Rightarrow> slot \<Rightarrow> unit \<Rightarrow> rt_error + unit" where
  "check_leak_output rt output_returned ival u =
     (if ival \<notin> set (rt_outputs rt) then
        (case ivalues rt ival of
           IVNone \<Rightarrow> Inr ()
         | IVTensor st \<Rightarrow> if data (storages rt st) = None then Inr () else Inl (NotCleanedUp ival)
         | _ \<Rightarrow> Inl (NotCleanedUp ival))
      else if output_returned \<and> ivalues rt ival \<noteq> IVNone then Inl (NotCleanedUp ival)
      else Inr ())"

definition check_for_memory_leak :: "bool \<Rightarrow> StaticRuntime \<Rightarrow> rt_error + unit" where
  "check_for_memory_leak output_returned rt =
     (if \<not> rt_cleanup_activations rt then Inr ()
      else
        (case for_each (check_leak_input rt) [0..<length (g_inputs (rt_graph rt))] () of
           Inl e \<Rightarrow> Inl e
         | Inr u \<Rightarrow>
             for_each (check_leak_output rt output_returned)
               (concat (map (\<lambda>(n, pnode). map (OutputSlot n) [0..<length (outputs (pn_node pnode))])
                            (enumerate 0 (rt_nodes rt)))) ()))"

text \<open>\<open>std::move(*outputs_[i])\<close>: the value leaves its slot, which is none afterwards.\<close>

definition move_out :: "slot \<Rightarrow> ivalue list \<times> StaticRuntime \<Rightarrow> ivalue list \<times> StaticRuntime" where
  "move_out s = (\<lambda>(outs, rt). (outs @ [ivalues rt s], rt\<lparr>ivalues := (ivalues rt)(s := IVNone)\<rparr>))"

definition collect_outputs ::
  "externals \<Rightarrow> StaticRuntime \<Rightarrow> rt_error \<times> StaticRuntime + ivalue \<times> StaticRuntime" where
  "collect_outputs ext rt =
     (if length (rt_outputs rt) > 1 then
        (case fold move_out (rt_outputs rt) ([], rt) of (outs, rt1) \<Rightarrow> Inr (IVTuple outs, rt1))
      else
        (case (if NDEBUG ext then Inr () else check_for_memory_leak False rt) of
           Inl e \<Rightarrow> Inl (e, rt)
         | Inr u \<Rightarrow>
             (case rt_outputs rt of
                [] \<Rightarrow> Inl (NoOutput, rt)
              | s # rest \<Rightarrow> (case move_out s ([], rt) of (outs, rt1) \<Rightarrow> Inr (hd outs, rt1)))))"


section \<open>Liveness analysis (static/impl.cpp)\<close>

text \<open>
  The state of \<open>LivenessMap\<close>: \<open>liveness_map\<close>, \<open>always_alive\<close> and \<open>live_values\<close>, which
  maps a live value to the nodes that still have to use it. The vector \<open>frontier\<close> is
  written and never read, and is left out. \<open>std::unordered_map::at\<close> throws on a key
  without an entry.
\<close>

datatype liveness_error =
    MapAtMissing \<comment> \<open>\<open>std::out_of_range\<close> from \<open>at\<close>\<close>
  | LiveValueNotAlwaysAlive \<comment> \<open>\<open>TORCH_CHECK(always_alive.count(v.first))\<close>\<close>

record liveness =
  liveness_map :: "value \<rightharpoonup> value set"
  always_alive :: "value set"
  live_values :: "value \<rightharpoonup> user set"

text \<open>
  \<open>add_live_value\<close>: the new value gets an empty entry, then it and every live value are
  entered in each other's sets; the value becomes live, with the users of its uses, if it
  has a use.
\<close>

definition add_live_value :: "graph \<Rightarrow> value \<Rightarrow> liveness \<Rightarrow> liveness_error + liveness" where
  "add_live_value g v st =
     (let lm1 = (liveness_map st)(v \<mapsto> {}) in
      if \<not> dom (live_values st) \<subseteq> dom lm1 then Inl MapAtMissing
      else
        Inr (st\<lparr>liveness_map :=
                   (\<lambda>x. if x \<in> dom (live_values st) then map_option (insert v) (lm1 x) else lm1 x)
                     (v \<mapsto> dom (live_values st)),
                 live_values :=
                   (if uses g v \<noteq> [] then (live_values st)(v \<mapsto> fst ` set (uses g v))
                    else live_values st)\<rparr>))"

text \<open>\<open>traverse_node\<close>, for one input of the node at position \<open>k\<close>.\<close>

definition traverse_input ::
  "graph \<Rightarrow> nat \<Rightarrow> value \<Rightarrow> liveness \<times> value list \<Rightarrow> liveness \<times> value list" where
  "traverse_input g k input = (\<lambda>(st, dead).
     if kind (node_of g input) = prim_Constant
     then (st\<lparr>always_alive := insert input (always_alive st)\<rparr>, dead)
     else
       (case live_values st input of
          None \<Rightarrow> (st, dead)
        | Some users \<Rightarrow>
            (st\<lparr>live_values := (live_values st)(input \<mapsto> users - {NodeAt k})\<rparr>,
             if users - {NodeAt k} = {} then dead @ [input] else dead)))"

definition process_node :: "graph \<Rightarrow> nat \<times> node \<Rightarrow> liveness \<Rightarrow> liveness_error + liveness" where
  "process_node g = (\<lambda>(k, n) st.
     case for_each (add_live_value g) (outputs n) st of
       Inl e \<Rightarrow> Inl e
     | Inr st1 \<Rightarrow>
         (case fold (traverse_input g k) (inputs n) (st1, []) of
            (st2, dead) \<Rightarrow>
              Inr (st2\<lparr>live_values := fold (\<lambda>dead_value m. m(dead_value := None)) dead (live_values st2)\<rparr>)))"

definition sweep :: "graph \<Rightarrow> liveness_error + liveness" where
  "sweep g =
     for_each (process_node g) (enumerate 0 (g_nodes g))
       \<lparr>liveness_map = Map.empty,
        always_alive = set (g_inputs g) \<union> set (g_outputs g),
        live_values = Map.empty\<rparr>"

definition interfere :: "value \<Rightarrow> value \<Rightarrow> (value \<rightharpoonup> value set) \<Rightarrow> (value \<rightharpoonup> value set)" where
  "interfere input output lm =
     (if input \<in> dom lm \<and> output \<in> dom lm then
        (let lm1 = lm(input \<mapsto> insert output (the (lm input)))
         in lm1(output \<mapsto> insert input (the (lm1 output))))
      else lm)"

definition augment :: "graph \<Rightarrow> (value \<rightharpoonup> value set) \<Rightarrow> (value \<rightharpoonup> value set)" where
  "augment g lm =
     fold (\<lambda>n lm. fold (\<lambda>input lm. fold (interfere input) (outputs n) lm) (inputs n) lm)
          (g_nodes g) lm"

definition LivenessMap :: "graph \<Rightarrow> liveness_error + (value \<rightharpoonup> value set) \<times> value set" where
  "LivenessMap g =
     (case sweep g of
        Inl e \<Rightarrow> Inl e
      | Inr st \<Rightarrow>
          if dom (live_values st) \<subseteq> always_alive st
          then Inr (augment g (liveness_map st), always_alive st)
          else Inl LiveValueNotAlwaysAlive)"

text \<open>
  A well-formed graph: every value is produced once, by one node, and a node uses only
  values produced by nodes before it (or by no node: the graph inputs). This is the
  topological order of the data model.
\<close>

definition wf_graph :: "graph \<Rightarrow> bool" where
  "wf_graph g \<longleftrightarrow>
     distinct (concat (map outputs (g_nodes g))) \<and>
     (\<forall>k<length (g_nodes g). \<forall>j<length (g_nodes g).
        set (inputs (g_nodes g ! k)) \<inter> set (outputs (g_nodes g ! j)) \<noteq> {} \<longrightarrow> j < k)"

text \<open>
  The notions the proofs about the liveness analysis use: the users of a value; a map
  that is symmetric and has no value in its own set; a map that has grown from another
  (same keys, larger sets); a pair of values entered in each other's sets, when both have
  an entry; the values produced by the first \<open>k\<close> nodes; and the invariant of the sweep
  once \<open>k\<close> nodes are done.
\<close>

definition users :: "graph \<Rightarrow> value \<Rightarrow> user set" where
  "users g v = fst ` set (uses g v)"

definition map_ok :: "(value \<rightharpoonup> value set) \<Rightarrow> bool" where
  "map_ok lm \<longleftrightarrow>
     (\<forall>a A b. lm a = Some A \<and> b \<in> A \<longrightarrow> (\<exists>B. lm b = Some B \<and> a \<in> B)) \<and>
     (\<forall>a A. lm a = Some A \<longrightarrow> a \<notin> A)"

definition grows :: "(value \<rightharpoonup> value set) \<Rightarrow> (value \<rightharpoonup> value set) \<Rightarrow> bool" where
  "grows lm lm' \<longleftrightarrow> dom lm' = dom lm \<and> (\<forall>a A. lm a = Some A \<longrightarrow> (\<exists>A'. lm' a = Some A' \<and> A \<subseteq> A'))"

definition recorded :: "value \<Rightarrow> value \<Rightarrow> (value \<rightharpoonup> value set) \<Rightarrow> bool" where
  "recorded i out lm \<longleftrightarrow> (i \<in> dom lm \<and> out \<in> dom lm \<longrightarrow> out \<in> the (lm i) \<and> i \<in> the (lm out))"

definition outs_upto :: "graph \<Rightarrow> nat \<Rightarrow> value set" where
  "outs_upto g k = set (concat (map outputs (take k (g_nodes g))))"

definition live_ok :: "graph \<Rightarrow> nat \<Rightarrow> liveness \<Rightarrow> bool" where
  "live_ok g k st \<longleftrightarrow>
     dom (live_values st) \<subseteq> dom (liveness_map st) \<and>
     map_ok (liveness_map st) \<and>
     set (g_inputs g) \<union> set (g_outputs g) \<subseteq> always_alive st \<and>
     (\<forall>j<k. \<forall>v\<in>set (inputs (g_nodes g ! j)).
        kind (node_of g v) = prim_Constant \<longrightarrow> v \<in> always_alive st) \<and>
     (\<forall>v U. live_values st v = Some U \<longrightarrow>
        U \<noteq> {} \<and> U \<subseteq> users g v \<and>
        (kind (node_of g v) \<noteq> prim_Constant \<longrightarrow> (\<forall>j<k. NodeAt j \<notin> U)))"

definition trav_ok :: "graph \<Rightarrow> nat \<Rightarrow> value list \<Rightarrow> liveness \<times> value list \<Rightarrow> bool" where
  "trav_ok g k seen = (\<lambda>(st, dead).
     dom (live_values st) \<subseteq> dom (liveness_map st) \<and>
     map_ok (liveness_map st) \<and>
     set (g_inputs g) \<union> set (g_outputs g) \<subseteq> always_alive st \<and>
     (\<forall>j<k. \<forall>v\<in>set (inputs (g_nodes g ! j)).
        kind (node_of g v) = prim_Constant \<longrightarrow> v \<in> always_alive st) \<and>
     (\<forall>v\<in>set seen. kind (node_of g v) = prim_Constant \<longrightarrow> v \<in> always_alive st) \<and>
     (\<forall>v U. live_values st v = Some U \<longrightarrow>
        (U = {} \<longrightarrow> v \<in> set dead) \<and> U \<subseteq> users g v \<and>
        (kind (node_of g v) \<noteq> prim_Constant \<longrightarrow>
           (\<forall>j<k. NodeAt j \<notin> U) \<and> (v \<in> set seen \<longrightarrow> NodeAt k \<notin> U))))"

text \<open>A graph for the examples of the liveness analysis: \<open>relu\<close> of the input, then \<open>tanh\<close>.\<close>

definition chain_graph :: graph where
  "chain_graph =
     \<lparr>g_inputs = [0],
      g_nodes = [\<lparr>kind = ''aten::relu'', inputs = [0], outputs = [1]\<rparr>,
                 \<lparr>kind = ''aten::tanh'', inputs = [1], outputs = [2]\<rparr>],
      g_outputs = [2],
      g_type = (\<lambda>v. TensorType)\<rparr>"

section \<open>Properties of the process-group frontend\<close>

text \<open>
  C10. Called with the default process group, \<open>getGroupSize\<close> evaluates the default
  group's \<open>getSize\<close> and drops the value: whatever \<open>getSize\<close> answers, the result is
  the number of entries of the group's rank map in \<open>pg_group_ranks\<close>, and the call
  fails with "The given group does not exist" when the default group has no entry there.
\<close>

theorem getGroupSize_default_group:
  assumes "default_pg d = Some p"
  shows "getGroupSize getSize d (Some p) =
           (case pg_group_ranks d (Some p) of
              None \<Rightarrow> Inl (TorchCheck ''The given group does not exist'')
            | Some ranks \<Rightarrow> Inr (of_nat (card (dom ranks))))"
  using assms by (simp add: getGroupSize_def call_getSize_def)

theorem getGroupSize_default_group_witness:
  "getGroupSize (\<lambda>g. 4)
      \<lparr>pg_group_ranks = [Some 7 \<mapsto> [0 \<mapsto> 0, 1 \<mapsto> 1]], default_pg = Some 7\<rparr> (Some 7) = Inr 2
   \<and> getGroupSize (\<lambda>g. 4)
      \<lparr>pg_group_ranks = Map.empty, default_pg = Some 7\<rparr> (Some 7)
        = Inl (TorchCheck ''The given group does not exist'')"
  using getGroupSize_default_group [of "\<lparr>pg_group_ranks = [Some 7 \<mapsto> [0 \<mapsto> 0, 1 \<mapsto> 1]], default_pg = Some 7\<rparr>" 7 "\<lambda>g. 4"]
        getGroupSize_default_group [of "\<lparr>pg_group_ranks = Map.empty, default_pg = Some 7\<rparr>" 7 "\<lambda>g. 4"]
  by simp


section \<open>Properties of graph preparation and eligibility\<close>

lemma check_frozen_fails:
  "(\<exists>e. check_frozen ns = Inl e) \<longleftrightarrow> (\<exists>n\<in>set ns. kind n = prim_GetAttr)"
  by (induction ns) auto

lemma check_elements_fails:
  "(\<exists>e. check_elements g vs = Inl e) \<longleftrightarrow> (\<exists>i\<in>set vs. g_type g i \<noteq> TensorType)"
  by (induction vs) auto

lemma check_outputs_fails:
  "(\<exists>e. check_outputs g outs = Inl e) \<longleftrightarrow>
   (\<exists>out\<in>set outs.
      if kind (node_of g out) = prim_TupleConstruct \<or> kind (node_of g out) = prim_ListConstruct
      then \<exists>i\<in>set (inputs (node_of g out)). g_type g i \<noteq> TensorType
      else g_type g out \<noteq> TensorType \<and> g_type g out \<noteq> NoneType)"
proof (induction outs)
  case Nil
  show ?case by simp
next
  case (Cons out outs)
  show ?case
  proof (cases "kind (node_of g out) = prim_TupleConstruct \<or> kind (node_of g out) = prim_ListConstruct")
    case True
    show ?thesis
    proof (cases "check_elements g (inputs (node_of g out))")
      case (Inl e)
      then have "\<exists>i\<in>set (inputs (node_of g out)). g_type g i \<noteq> TensorType"
        using check_elements_fails [of g "inputs (node_of g out)"] by blast
      with True Inl show ?thesis by auto
    next
      case (Inr u)
      then have "\<not> (\<exists>i\<in>set (inputs (node_of g out)). g_type g i \<noteq> TensorType)"
        using check_elements_fails [of g "inputs (node_of g out)"] by auto
      with True Inr Cons.IH show ?thesis by auto
    qed
  next
    case False
    with Cons.IH show ?thesis by auto
  qed
qed

lemma CheckGraphEligibility_fails:
  "(\<exists>e. CheckGraphEligibility g = Inl e) \<longleftrightarrow>
     (\<exists>n\<in>set (g_nodes g). kind n = prim_GetAttr) \<or>
     (\<exists>out\<in>set (g_outputs g).
        if kind (node_of g out) = prim_TupleConstruct \<or> kind (node_of g out) = prim_ListConstruct
        then \<exists>i\<in>set (inputs (node_of g out)). g_type g i \<noteq> TensorType
        else g_type g out \<noteq> TensorType \<and> g_type g out \<noteq> NoneType)"
proof (cases "check_frozen (g_nodes g)")
  case (Inl e)
  then have "\<exists>n\<in>set (g_nodes g). kind n = prim_GetAttr"
    using check_frozen_fails [of "g_nodes g"] by blast
  with Inl show ?thesis by (auto simp: CheckGraphEligibility_def)
next
  case (Inr u)
  then have "\<not> (\<exists>n\<in>set (g_nodes g). kind n = prim_GetAttr)"
    using check_frozen_fails [of "g_nodes g"] by auto
  with Inr show ?thesis
    using check_outputs_fails [of g "g_outputs g"] by (simp add: CheckGraphEligibility_def)
qed

lemma init_fails:
  "CheckGraphEligibility (heap (OptimizeGraph sem flag gp w) gp) = Inl e \<Longrightarrow>
   init sem flag gp w = (OptimizeGraph sem flag gp w, Inl e)"
  by (simp add: init_def Let_def)

lemma run_pass_applied: "applied (run_pass sem p gp w) = applied w @ [(p, gp)]"
  by (simp add: run_pass_def)

lemma run_pass_heap: "heap (run_pass sem p gp w) = (heap w)(gp := sem p (heap w gp))"
  by (simp add: run_pass_def)

lemma Prepare_applied:
  "applied (PrepareGraphForStaticRuntime sem gp w) =
     applied w @ map (\<lambda>p. (p, gp))
       [Inline, ConstantPropagation, Canonicalize, ConstantPropagation,
        RemoveTensorMutation, ConstantPropagation, EliminateDeadCode]"
  by (simp add: PrepareGraphForStaticRuntime_def Let_def run_pass_applied)

lemma Prepare_heap:
  "heap (PrepareGraphForStaticRuntime sem gp w) =
     (heap w)(gp := fold sem
       [Inline, ConstantPropagation, Canonicalize, ConstantPropagation,
        RemoveTensorMutation, ConstantPropagation, EliminateDeadCode] (heap w gp))"
  by (simp add: PrepareGraphForStaticRuntime_def Let_def run_pass_heap)

lemma Fuse_applied:
  "applied (FuseInferenceOpsForSparseNN sem flag gp w) =
     applied w @ map (\<lambda>p. (p, gp))
       (if flag then [ConcatAddMulReplaceNaNClip, CastedBatchOneHotLengths,
          ConcatBatchMatMulBatchGather, ClipRangesGatherRangesLengthsToOffsets,
          ClipRangesGatherSigridHash, ClipRangesGatherRangesSigridHash, ClipRangesGather] else [])"
  by (simp add: FuseInferenceOpsForSparseNN_def Let_def run_pass_applied)

lemma Fuse_heap:
  "heap (FuseInferenceOpsForSparseNN sem flag gp w) =
     (heap w)(gp := fold sem
       (if flag then [ConcatAddMulReplaceNaNClip, CastedBatchOneHotLengths,
          ConcatBatchMatMulBatchGather, ClipRangesGatherRangesLengthsToOffsets,
          ClipRangesGatherSigridHash, ClipRangesGatherRangesSigridHash, ClipRangesGather] else [])
       (heap w gp))"
  by (simp add: FuseInferenceOpsForSparseNN_def Let_def run_pass_heap)

lemma OptimizeGraph_applied:
  "applied (OptimizeGraph sem flag gp w) =
     applied w @ map (\<lambda>p. (p, gp))
       ([Inline, ConstantPropagation, Canonicalize, ConstantPropagation,
         RemoveTensorMutation, ConstantPropagation, EliminateDeadCode]
        @ (if flag then [ConcatAddMulReplaceNaNClip, CastedBatchOneHotLengths,
          ConcatBatchMatMulBatchGather, ClipRangesGatherRangesLengthsToOffsets,
          ClipRangesGatherSigridHash, ClipRangesGatherRangesSigridHash, ClipRangesGather] else [])
        @ [ConstantPropagation])"
  by (simp add: OptimizeGraph_def Let_def run_pass_applied Prepare_applied Fuse_applied)

lemma OptimizeGraph_heap:
  "heap (OptimizeGraph sem flag gp w) =
     (heap w)(gp := fold sem
       ([Inline, ConstantPropagation, Canonicalize, ConstantPropagation,
         RemoveTensorMutation, ConstantPropagation, EliminateDeadCode]
        @ (if flag then [ConcatAddMulReplaceNaNClip, CastedBatchOneHotLengths,
          ConcatBatchMatMulBatchGather, ClipRangesGatherRangesLengthsToOffsets,
          ClipRangesGatherSigridHash, ClipRangesGatherRangesSigridHash, ClipRangesGather] else [])
        @ [ConstantPropagation]) (heap w gp))"
  by (simp add: OptimizeGraph_def Let_def run_pass_heap Prepare_heap Fuse_heap)

lemma init_applied: "applied (fst (init sem flag gp w)) = applied (OptimizeGraph sem flag gp w)"
  by (simp add: init_def Let_def split: sum.splits)

lemma init_heap_other: "q \<noteq> gp \<Longrightarrow> heap (fst (init sem flag gp w)) q = heap w q"
  by (simp add: init_def Let_def OptimizeGraph_heap split: sum.splits)

lemma of_graph_fst: "fst (InferenceModule_of_graph sem flag g opts w) = fst (init sem flag g w)"
  by (simp add: InferenceModule_of_graph_def split: prod.splits sum.splits)

lemma of_graph_ptr: "snd (InferenceModule_of_graph sem flag g opts w) = Inr m \<Longrightarrow> im_graph m = g"
  by (auto simp add: InferenceModule_of_graph_def split: prod.splits sum.splits)

lemma of_module_fst:
  "frozen_copy m w = (w1, gp, s) \<Longrightarrow> RemoveSelfFromSchema s = Inr s' \<Longrightarrow>
   fst (InferenceModule_of_module sem flag frozen_copy m opts w) = fst (init sem flag gp w1)"
  by (simp add: InferenceModule_of_module_def split: prod.splits sum.splits)

lemma dead_node_graph_optimized:
  "g_nodes (fold example_passes
      [Inline, ConstantPropagation, Canonicalize, ConstantPropagation,
       RemoveTensorMutation, ConstantPropagation, EliminateDeadCode, ConstantPropagation]
      dead_node_graph) = [\<lparr>kind = ''aten::tanh'', inputs = [0], outputs = [2]\<rparr>]"
  by code_simp

lemma unfrozen_pass: "example_passes p unfrozen_graph = unfrozen_graph"
  by (simp add: example_passes_def drop_unused_def unfrozen_graph_def uses_def uses_in_def)

lemma RemoveSelf_nodes: "RemoveSelfFromGraphInput g = Inr g' \<Longrightarrow> g_nodes g' = g_nodes g"
  by (auto simp: RemoveSelfFromGraphInput_def split: list.splits if_splits)

lemma init_nodes:
  "g_nodes (heap (fst (init sem flag gp w)) gp) = g_nodes (heap (OptimizeGraph sem flag gp w) gp)"
  by (auto simp: init_def Let_def RemoveSelf_nodes split: sum.splits)

text \<open>
  C5. Eligibility checking fails if and only if some node has kind \<open>prim::GetAttr\<close>, or
  some graph output produced by a \<open>TupleConstruct\<close> or \<open>ListConstruct\<close> node has an
  element (an input of that node) that is not of Tensor type, or some graph output
  produced by any other node is neither of Tensor type nor of None type. When the check
  fails, either constructor of the InferenceModule fails with the same error and yields
  no module, so nothing can be run.
\<close>

theorem eligibility_fails_iff:
  "((\<exists>e. CheckGraphEligibility g = Inl e) \<longleftrightarrow>
     (\<exists>n\<in>set (g_nodes g). kind n = prim_GetAttr) \<or>
     (\<exists>out\<in>set (g_outputs g).
        if kind (node_of g out) = prim_TupleConstruct \<or> kind (node_of g out) = prim_ListConstruct
        then \<exists>i\<in>set (inputs (node_of g out)). g_type g i \<noteq> TensorType
        else g_type g out \<noteq> TensorType \<and> g_type g out \<noteq> NoneType))
   \<and> (\<forall>e. CheckGraphEligibility (heap (OptimizeGraph sem flag gp w) gp) = Inl e \<longrightarrow>
          snd (InferenceModule_of_graph sem flag gp opts w) = Inl e)
   \<and> (\<forall>e w1 s s'. frozen_copy m w = (w1, gp, s) \<and> RemoveSelfFromSchema s = Inr s' \<and>
          CheckGraphEligibility (heap (OptimizeGraph sem flag gp w1) gp) = Inl e \<longrightarrow>
          snd (InferenceModule_of_module sem flag frozen_copy m opts w) = Inl e)"
proof (intro conjI allI impI)
  show "(\<exists>e. CheckGraphEligibility g = Inl e) \<longleftrightarrow>
     (\<exists>n\<in>set (g_nodes g). kind n = prim_GetAttr) \<or>
     (\<exists>out\<in>set (g_outputs g).
        if kind (node_of g out) = prim_TupleConstruct \<or> kind (node_of g out) = prim_ListConstruct
        then \<exists>i\<in>set (inputs (node_of g out)). g_type g i \<noteq> TensorType
        else g_type g out \<noteq> TensorType \<and> g_type g out \<noteq> NoneType)"
    by (rule CheckGraphEligibility_fails)
next
  fix e
  assume "CheckGraphEligibility (heap (OptimizeGraph sem flag gp w) gp) = Inl e"
  then show "snd (InferenceModule_of_graph sem flag gp opts w) = Inl e"
    by (simp add: InferenceModule_of_graph_def init_fails)
next
  fix e w1 s s'
  assume "frozen_copy m w = (w1, gp, s) \<and> RemoveSelfFromSchema s = Inr s' \<and>
          CheckGraphEligibility (heap (OptimizeGraph sem flag gp w1) gp) = Inl e"
  then show "snd (InferenceModule_of_module sem flag frozen_copy m opts w) = Inl e"
    by (simp add: InferenceModule_of_module_def init_fails)
qed

theorem eligibility_fails_iff_witness:
  "(\<exists>e. CheckGraphEligibility unfrozen_graph = Inl e)
   \<and> snd (InferenceModule_of_graph example_passes False 0 example_opts
            \<lparr>heap = (\<lambda>p. unfrozen_graph), applied = []\<rparr>) = Inl UnfrozenGraph
   \<and> snd (InferenceModule_of_module example_passes False
            (\<lambda>m w. (w, 0, \<lparr>arguments = [''self'', ''x'']\<rparr>)) () example_opts
            \<lparr>heap = (\<lambda>p. unfrozen_graph), applied = []\<rparr>) = Inl UnfrozenGraph"
proof -
  let ?w = "\<lparr>heap = (\<lambda>p. unfrozen_graph), applied = []\<rparr>"
  have h: "heap (OptimizeGraph example_passes False 0 ?w) 0 = unfrozen_graph"
    by (simp add: OptimizeGraph_heap unfrozen_pass)
  have c: "CheckGraphEligibility unfrozen_graph = Inl UnfrozenGraph"
    by (simp add: CheckGraphEligibility_def unfrozen_graph_def)
  have r: "RemoveSelfFromSchema \<lparr>arguments = [''self'', ''x'']\<rparr> = Inr \<lparr>arguments = [''x'']\<rparr>"
    by (simp add: RemoveSelfFromSchema_def)
  show ?thesis
    using eligibility_fails_iff [of unfrozen_graph example_passes False 0 ?w example_opts
        "\<lambda>m w. (w, 0, \<lparr>arguments = [''self'', ''x'']\<rparr>)" "()"] h c r
    by (simp add: unfrozen_graph_def)
qed

text \<open>
  The check looks at the kind of the producing node, not at the type of the output: a
  graph whose only output is the tensor list produced by \<open>aten::split\<close> has no
  \<open>prim::GetAttr\<close> node and an output of type list of Tensor, and is rejected.
\<close>

theorem eligibility_as_stated_counterexample:
  "CheckGraphEligibility split_graph = Inl (OutputNotNoneOrTensor (ListType TensorType))
   \<and> map kind (g_nodes split_graph) = [prim_Constant, prim_Constant, ''aten::split'']
   \<and> map (g_type split_graph) (g_outputs split_graph) = [ListType TensorType]"
  by (simp add: split_graph_def CheckGraphEligibility_def node_of_def)

text \<open>
  C6. The optimiser applies exactly Inline, ConstantPropagation, Canonicalize,
  ConstantPropagation, RemoveTensorMutation, ConstantPropagation, EliminateDeadCode, then
  the seven fusions when the flag is set, then ConstantPropagation, in that order and
  nothing else; every pass rewrites the one graph object it is given and leaves every
  other object alone. An InferenceModule constructed from a graph runs them on the
  caller's own graph object, which is also the graph the module keeps; one constructed
  from a module runs them on the forward graph of its frozen copy of the module.
\<close>

theorem optimise_pass_sequence:
  "applied (OptimizeGraph sem flag gp w) =
     applied w @ map (\<lambda>p. (p, gp))
       ([Inline, ConstantPropagation, Canonicalize, ConstantPropagation,
         RemoveTensorMutation, ConstantPropagation, EliminateDeadCode]
        @ (if flag then [ConcatAddMulReplaceNaNClip, CastedBatchOneHotLengths,
          ConcatBatchMatMulBatchGather, ClipRangesGatherRangesLengthsToOffsets,
          ClipRangesGatherSigridHash, ClipRangesGatherRangesSigridHash, ClipRangesGather] else [])
        @ [ConstantPropagation])
   \<and> heap (OptimizeGraph sem flag gp w) =
     (heap w)(gp := fold sem
       ([Inline, ConstantPropagation, Canonicalize, ConstantPropagation,
         RemoveTensorMutation, ConstantPropagation, EliminateDeadCode]
        @ (if flag then [ConcatAddMulReplaceNaNClip, CastedBatchOneHotLengths,
          ConcatBatchMatMulBatchGather, ClipRangesGatherRangesLengthsToOffsets,
          ClipRangesGatherSigridHash, ClipRangesGatherRangesSigridHash, ClipRangesGather] else [])
        @ [ConstantPropagation]) (heap w gp))
   \<and> applied (fst (InferenceModule_of_graph sem flag gp opts w)) =
       applied (OptimizeGraph sem flag gp w)
   \<and> (\<forall>q. q \<noteq> gp \<longrightarrow> heap (fst (InferenceModule_of_graph sem flag gp opts w)) q = heap w q)
   \<and> (\<forall>im. snd (InferenceModule_of_graph sem flag gp opts w) = Inr im \<longrightarrow> im_graph im = gp)
   \<and> (\<forall>w1 s s'. frozen_copy m w = (w1, gp, s) \<and> RemoveSelfFromSchema s = Inr s' \<longrightarrow>
         applied (fst (InferenceModule_of_module sem flag frozen_copy m opts w)) =
         applied (OptimizeGraph sem flag gp w1))"
proof (intro conjI allI impI)
  fix w1 s s'
  assume "frozen_copy m w = (w1, gp, s) \<and> RemoveSelfFromSchema s = Inr s'"
  then show "applied (fst (InferenceModule_of_module sem flag frozen_copy m opts w)) =
         applied (OptimizeGraph sem flag gp w1)"
    by (simp add: of_module_fst init_applied)
next
  fix q
  assume "q \<noteq> gp"
  then show "heap (fst (InferenceModule_of_graph sem flag gp opts w)) q = heap w q"
    by (simp add: of_graph_fst init_heap_other)
next
  fix im
  assume "snd (InferenceModule_of_graph sem flag gp opts w) = Inr im"
  then show "im_graph im = gp"
    by (rule of_graph_ptr)
qed (simp_all only: OptimizeGraph_applied OptimizeGraph_heap of_graph_fst init_applied)

theorem optimise_pass_sequence_witness:
  "applied (fst (InferenceModule_of_graph example_passes False 0 example_opts
                   \<lparr>heap = (\<lambda>p. dead_node_graph), applied = []\<rparr>)) =
     [(Inline, 0), (ConstantPropagation, 0), (Canonicalize, 0), (ConstantPropagation, 0),
      (RemoveTensorMutation, 0), (ConstantPropagation, 0), (EliminateDeadCode, 0),
      (ConstantPropagation, 0)]
   \<and> heap (fst (InferenceModule_of_graph example_passes False 0 example_opts
                   \<lparr>heap = (\<lambda>p. dead_node_graph), applied = []\<rparr>)) 1 = dead_node_graph"
  using optimise_pass_sequence [of example_passes False 0
          "\<lparr>heap = (\<lambda>p. dead_node_graph), applied = []\<rparr>" example_opts "\<lambda>m w. (w, 0, \<lparr>arguments = []\<rparr>)" "()"]
  by simp

text \<open>
  Constructed from a graph, the InferenceModule does not copy it: after the constructor,
  the caller's graph object has lost its dead node.
\<close>

theorem optimise_on_copy_counterexample:
  "g_nodes (heap \<lparr>heap = (\<lambda>p. dead_node_graph), applied = []\<rparr> 0) =
      [\<lparr>kind = ''aten::relu'', inputs = [0], outputs = [1]\<rparr>,
       \<lparr>kind = ''aten::tanh'', inputs = [0], outputs = [2]\<rparr>]
   \<and> g_nodes (heap (fst (InferenceModule_of_graph example_passes False 0 example_opts
                          \<lparr>heap = (\<lambda>p. dead_node_graph), applied = []\<rparr>)) 0) =
      [\<lparr>kind = ''aten::tanh'', inputs = [0], outputs = [2]\<rparr>]"
proof -
  let ?w = "\<lparr>heap = (\<lambda>p. dead_node_graph), applied = []\<rparr>"
  have "g_nodes (heap (OptimizeGraph example_passes False 0 ?w) 0) =
        [\<lparr>kind = ''aten::tanh'', inputs = [0], outputs = [2]\<rparr>]"
    using dead_node_graph_optimized by (simp add: OptimizeGraph_heap)
  then show ?thesis
    by (simp add: of_graph_fst init_nodes dead_node_graph_def)
qed

section \<open>Properties of the MemoryPlanner\<close>

lemma scan_output_step:
  "managed_values (scan_output g m k (i, out) pv) =
     managed_values pv \<union> (if m \<and> g_type g out = TensorType then {out} else {})"
  by (simp add: scan_output_def)

lemma scan_output_managed:
  "managed_values (fold (scan_output g m k) xs pv) =
     managed_values pv \<union> (if m then {out \<in> snd ` set xs. g_type g out = TensorType} else {})"
proof (induction xs arbitrary: pv)
  case Nil
  show ?case by simp
next
  case (Cons x xs)
  obtain i out where x: "x = (i, out)" by (cases x)
  show ?case
    unfolding fold_simps x Cons.IH scan_output_step comp_def
    by auto
qed

lemma scan_pnode_managed:
  "managed_values (scan_pnode is_view g giv (k, pn) pv) =
     managed_values pv \<union>
       (if should_manage is_view giv pn
        then {out \<in> set (outputs (pn_node pn)). g_type g out = TensorType} else {})"
proof -
  have "snd ` set (enumerate 0 (outputs (pn_node pn))) = set (outputs (pn_node pn))"
    by (metis map_snd_enumerate set_map)
  then show ?thesis
    by (simp add: scan_pnode_def scan_output_managed)
qed

lemma scan_pnodes_managed:
  "managed_values (fold (scan_pnode is_view g giv) kps pv) =
     managed_values pv \<union>
       {out. \<exists>pn\<in>snd ` set kps. should_manage is_view giv pn \<and>
               out \<in> set (outputs (pn_node pn)) \<and> g_type g out = TensorType}"
proof (induction kps arbitrary: pv)
  case Nil
  show ?case by simp
next
  case (Cons kp kps)
  obtain k pn where kp: "kp = (k, pn)" by (cases kp)
  show ?case
    unfolding fold_simps kp Cons.IH scan_pnode_managed comp_def
    by auto
qed

lemma drop_element_step:
  "managed_values (drop_element giv input pv) = managed_values pv - {input}"
  by (simp add: drop_element_def Let_def)

lemma drop_element_managed:
  "managed_values (fold (drop_element giv) ins pv) = managed_values pv - set ins"
  by (induction ins arbitrary: pv) (auto simp: drop_element_step)

lemma drop_aggregate_managed:
  "managed_values (fold (drop_aggregate g giv) outs pv) =
     managed_values pv -
       {v. \<exists>out\<in>set outs. (kind (node_of g out) = prim_TupleConstruct \<or>
                               kind (node_of g out) = prim_ListConstruct) \<and>
                              v \<in> set (inputs (node_of g out))}"
proof (induction outs arbitrary: pv)
  case Nil
  show ?case by simp
next
  case (Cons out outs)
  show ?case
    unfolding fold_simps Cons.IH comp_def
    by (auto simp: drop_aggregate_def Let_def drop_element_managed)
qed

lemma erase_outputs_managed:
  "managed_values (fold (\<lambda>output pv. pv\<lparr>managed_values := managed_values pv - {output}\<rparr>) outs pv) =
     managed_values pv - set outs"
  by (induction outs arbitrary: pv) auto

lemma erase_slots_managed:
  "managed_values (fold (\<lambda>output pv. pv\<lparr>unmanaged_value_set := unmanaged_value_set pv - {Some output}\<rparr>) outs pv) =
     managed_values pv"
  by (induction outs arbitrary: pv) auto

lemma plan_managed:
  "managed_values (plan is_view rt) =
     {out. \<exists>pn\<in>set (rt_nodes rt). should_manage is_view (set (g_inputs (rt_graph rt))) pn \<and>
               out \<in> set (outputs (pn_node pn)) \<and> g_type (rt_graph rt) out = TensorType}
     - {v. \<exists>out\<in>set (g_outputs (rt_graph rt)).
             (kind (node_of (rt_graph rt) out) = prim_TupleConstruct \<or>
              kind (node_of (rt_graph rt) out) = prim_ListConstruct) \<and>
             v \<in> set (inputs (node_of (rt_graph rt) out))}
     - set (g_outputs (rt_graph rt))"
proof -
  have "snd ` set (enumerate 0 (rt_nodes rt)) = set (rt_nodes rt)"
    by (metis map_snd_enumerate set_map)
  then show ?thesis
    by (simp add: plan_def Let_def erase_slots_managed erase_outputs_managed
        drop_aggregate_managed scan_pnodes_managed)
qed

text \<open>
  C1. After the first half of the constructor, a Value is in \<open>managed_values\<close> if and only
  if a processed node produces it, that node has an out-variant, the static type of the
  Value is Tensor, the node is not a view op with a graph input among its inputs, and the
  Value is neither a graph output nor an input of a \<open>TupleConstruct\<close> or \<open>ListConstruct\<close>
  node that produces a graph output. This holds for every runtime and every graph.
\<close>

theorem managed_values_iff:
  "v \<in> managed_values (plan is_view rt) \<longleftrightarrow>
     (\<exists>pn\<in>set (rt_nodes rt).
         v \<in> set (outputs (pn_node pn)) \<and> has_out_variant pn \<and>
         g_type (rt_graph rt) v = TensorType \<and>
         \<not> (is_view (pn_node pn) \<and>
            (\<exists>i\<in>set (inputs (pn_node pn)). i \<in> set (g_inputs (rt_graph rt)))))
     \<and> v \<notin> set (g_outputs (rt_graph rt))
     \<and> \<not> (\<exists>out\<in>set (g_outputs (rt_graph rt)).
             (kind (node_of (rt_graph rt) out) = prim_TupleConstruct \<or>
              kind (node_of (rt_graph rt) out) = prim_ListConstruct) \<and>
             v \<in> set (inputs (node_of (rt_graph rt) out)))"
  unfolding plan_managed should_manage_def by auto

theorem managed_values_iff_witness:
  "1 \<in> managed_values (plan example_view example_runtime)
   \<and> 5 \<in> managed_values (plan example_view example_runtime)
   \<and> 2 \<notin> managed_values (plan example_view example_runtime)
   \<and> 3 \<notin> managed_values (plan example_view example_runtime)"
  unfolding managed_values_iff by code_simp

lemma for_each_invariant:
  assumes step: "\<And>x s s'. P s \<Longrightarrow> body x s = Inr s' \<Longrightarrow> P s'"
  shows "P s \<Longrightarrow> for_each body xs s = Inr s' \<Longrightarrow> P s'"
proof (induction xs arbitrary: s)
  case Nil
  then show ?case by simp
next
  case (Cons x xs)
  from Cons.prems(2) obtain s1 where s1: "body x s = Inr s1" and rest: "for_each body xs s1 = Inr s'"
    by (auto split: sum.splits)
  from step [OF Cons.prems(1) s1] have "P s1" .
  from Cons.IH [OF this rest] show ?case .
qed

lemma concat_join:
  assumes "idx < length ms"
  shows "concat (map snd (ms[idx := (a, snd (ms ! idx) @ [x])])) =
         concat (map snd (take idx ms)) @ snd (ms ! idx) @ [x] @ concat (map snd (drop (Suc idx) ms))"
  using assms by (simp add: upd_conv_take_nth_drop)

lemma concat_split:
  assumes "idx < length ms"
  shows "concat (map snd ms) =
         concat (map snd (take idx ms)) @ snd (ms ! idx) @ concat (map snd (drop (Suc idx) ms))"
proof -
  have "ms = take idx ms @ ms ! idx # drop (Suc idx) ms"
    using assms by (rule id_take_nth_drop)
  then have "concat (map snd ms) = concat (map snd (take idx ms @ ms ! idx # drop (Suc idx) ms))"
    by simp
  then show ?thesis by simp
qed

lemma join_distinct:
  assumes "idx < length ms" "distinct (concat (map snd ms))" "x \<notin> set (concat (map snd ms))"
  shows "distinct (concat (map snd (ms[idx := (a, snd (ms ! idx) @ [x])])))"
    and "set (concat (map snd (ms[idx := (a, snd (ms ! idx) @ [x])]))) = insert x (set (concat (map snd ms)))"
proof -
  let ?A = "concat (map snd (take idx ms))"
  let ?B = "snd (ms ! idx)"
  let ?C = "concat (map snd (drop (Suc idx) ms))"
  have old: "concat (map snd ms) = ?A @ ?B @ ?C" using assms(1) by (rule concat_split)
  have new: "concat (map snd (ms[idx := (a, ?B @ [x])])) = ?A @ ?B @ [x] @ ?C"
    using assms(1) by (rule concat_join)
  from assms(2,3) show "distinct (concat (map snd (ms[idx := (a, ?B @ [x])])))"
    unfolding old new by auto
  show "set (concat (map snd (ms[idx := (a, ?B @ [x])]))) = insert x (set (concat (map snd ms)))"
    unfolding old new by auto
qed

lemma group_output_distinct:
  assumes "groups_distinct gr" "group_output rt mv ss k x gr = Inr gr'"
  shows "groups_distinct gr'"
proof -
  obtain i val where x: "x = (i, val)" by (cases x)
  show ?thesis
  proof (cases "val \<in> mv")
    case False
    with assms x show ?thesis by (simp add: group_output_def)
  next
    case True
    with assms(2) x obtain impl where iv: "ivalues rt (OutputSlot k i) = IVTensor impl"
      by (auto simp: group_output_def split: ivalue.splits)
    show ?thesis
    proof (cases "impl \<in> managed_storage_impls gr")
      case True
      with assms x \<open>val \<in> mv\<close> iv show ?thesis by (simp add: group_output_def)
    next
      case False
      with assms(1) have fresh: "impl \<notin> set (concat (map snd (gr_storage gr)))"
        and dist: "distinct (concat (map snd (gr_storage gr)))"
        and sub: "set (concat (map snd (gr_storage gr))) \<subseteq> managed_storage_impls gr"
        unfolding groups_distinct_def by auto
      show ?thesis
      proof (cases "shared gr val")
        case (Some idx)
        with assms(2) x \<open>val \<in> mv\<close> iv False
        have idx: "idx < length (gr_storage gr)"
          and gr': "gr' = gr\<lparr>managed_storage_impls := insert impl (managed_storage_impls gr),
                gr_storage := (gr_storage gr)
                  [idx := (fst (gr_storage gr ! idx), snd (gr_storage gr ! idx) @ [impl])]\<rparr>"
          by (auto simp: group_output_def Let_def split: if_splits)
        from join_distinct [OF idx dist fresh] sub show ?thesis
          unfolding groups_distinct_def gr' by auto
      next
        case None
        with assms(2) x \<open>val \<in> mv\<close> iv False
        have "gr_storage gr' = gr_storage gr @ [(0, [impl])]"
          and "managed_storage_impls gr' = insert impl (managed_storage_impls gr)"
          by (auto simp: group_output_def Let_def split: option.splits)
        with fresh dist sub show ?thesis
          unfolding groups_distinct_def by auto
      qed
    qed
  qed
qed

lemma group_pnode_distinct:
  assumes "groups_distinct gr" "group_pnode rt mv ss kp gr = Inr gr'"
  shows "groups_distinct gr'"
proof -
  obtain k pn where kp: "kp = (k, pn)" by (cases kp)
  from assms(2) have "for_each (group_output rt mv ss k) (enumerate 0 (outputs (pn_node pn))) gr = Inr gr'"
    by (simp add: group_pnode_def kp)
  with assms(1) show ?thesis
    by (rule for_each_invariant [where P = groups_distinct, rotated]) (rule group_output_distinct)
qed

lemma group_pnodes_distinct:
  assumes "for_each (group_pnode rt mv ss) kps gr = Inr gr'" "groups_distinct gr"
  shows "groups_distinct gr'"
  using assms(2,1)
  by (rule for_each_invariant [where P = groups_distinct, rotated]) (rule group_pnode_distinct)

lemma example_new_planner:
  "new_MemoryPlanner example_view example_runtime Map.empty = Inr example_planner"
  by code_simp

text \<open>
  C9. In the planner the constructor returns, no storage stands twice in
  \<open>managed_storage_\<close>, neither in two groups nor twice in one: a storage that was seen
  before is skipped, whether the earlier occurrence founded a group or joined one.
\<close>

theorem storage_in_one_group:
  assumes "new_MemoryPlanner is_view rt should_share = Inr p"
  shows "distinct (concat (map snd (managed_storage p)))"
proof -
  let ?gr0 = "\<lparr>gr_storage = [], managed_storage_impls = {}, shared = Map.empty\<rparr>"
  from assms obtain gr where
    gr: "for_each (group_pnode rt (managed_values (plan is_view rt)) should_share)
           (enumerate 0 (rt_nodes rt)) ?gr0 = Inr gr"
    and p: "managed_storage p = gr_storage gr"
    by (auto simp: new_MemoryPlanner_def Let_def split: sum.splits)
  have "groups_distinct ?gr0" by (simp add: groups_distinct_def)
  from group_pnodes_distinct [OF gr this] p show ?thesis
    by (simp add: groups_distinct_def)
qed

theorem storage_in_one_group_witness:
  "new_MemoryPlanner example_view example_runtime Map.empty = Inr example_planner
   \<and> distinct (concat (map snd (managed_storage example_planner)))"
  using example_new_planner storage_in_one_group [OF example_new_planner]
  by (rule conjI)













section \<open>Properties of run\<close>

























lemma compute_aligned_normaliser [simp]:
  "compute_aligned_tensor_size (ext\<lparr>checkAndNormalizeInputs := f\<rparr>) = compute_aligned_tensor_size ext"
  by (simp add: fun_eq_iff compute_aligned_tensor_size_def)

lemma deallocate_impl_normaliser [simp]:
  "deallocate_impl (ext\<lparr>checkAndNormalizeInputs := f\<rparr>) = deallocate_impl ext"
  by (simp add: fun_eq_iff deallocate_impl_def)

lemma deallocate_group_normaliser [simp]:
  "deallocate_group (ext\<lparr>checkAndNormalizeInputs := f\<rparr>) = deallocate_group ext"
  by (simp add: fun_eq_iff deallocate_group_def)

lemma deallocate_normaliser [simp]:
  "deallocate (ext\<lparr>checkAndNormalizeInputs := f\<rparr>) = deallocate ext"
  by (simp add: fun_eq_iff deallocate_def)

lemma allocate_group_normaliser [simp]:
  "allocate_group (ext\<lparr>checkAndNormalizeInputs := f\<rparr>) = allocate_group ext"
  by (simp add: fun_eq_iff allocate_group_def)

lemma allocate_normaliser [simp]:
  "allocate (ext\<lparr>checkAndNormalizeInputs := f\<rparr>) = allocate ext"
  by (auto simp: fun_eq_iff allocate_def Let_def split: sum.splits prod.splits)

lemma run_node_normaliser [simp]:
  "run_node (ext\<lparr>checkAndNormalizeInputs := f\<rparr>) = run_node ext"
  by (simp add: fun_eq_iff run_node_def)

lemma run_allocate_normaliser [simp]:
  "run_allocate (ext\<lparr>checkAndNormalizeInputs := f\<rparr>) = run_allocate ext"
  by (simp add: fun_eq_iff run_allocate_def cong: option.case_cong sum.case_cong)

lemma cleanup_normaliser [simp]:
  "cleanup (ext\<lparr>checkAndNormalizeInputs := f\<rparr>) = cleanup ext"
  by (simp add: fun_eq_iff cleanup_def cong: option.case_cong sum.case_cong)

lemma collect_outputs_normaliser [simp]:
  "collect_outputs (ext\<lparr>checkAndNormalizeInputs := f\<rparr>) = collect_outputs ext"
  by (simp add: fun_eq_iff collect_outputs_def cong: option.case_cong sum.case_cong)








end
